theory Spec2Isabelle
  imports Complex_Main
begin

section \<open>The client runtime of the taxi application (frontend/src/App.js)\<close>

text \<open>
  The React component \<open>App\<close> keeps its state in \<open>useState\<close> cells and changes it in
  event handlers, effects and the continuations of HTTP calls. The embedding is a record
  of those cells together with the parts of the environment the handlers touch (the
  persisted token, the default Authorization header, the pending dismissal timers, the
  log of outbound requests), and one function per handler. An asynchronous handler takes
  the outcome of its HTTP call as an argument: \<open>Inl\<close> is the rejection caught by its
  \<open>catch\<close> block, \<open>Inr\<close> the response data.

  Strings are byte strings: a non-ASCII literal of the source is the UTF-8 bytes the
  source file stores for it. Coordinates are kept as reals; the code only copies them.
\<close>

subsection \<open>Data\<close>

record profile =
  name :: string
  phone :: string
  user_type :: string
  is_activated :: bool

record position =
  lat :: real
  lng :: real

record taxi =
  taxi_id :: string
  driver_name :: string
  latitude :: real
  longitude :: real

record alert_state =
  alert_show :: bool
  alert_type :: string
  alert_message :: string

record cs_info =
  cs_phone :: string
  cs_message :: string

text \<open>
  \<open>passenger_count\<close> holds the number \<open>1\<close> initially and after a reset, and the
  string \<open>e.target.value\<close> after the select changed it.
\<close>

datatype jsval = JNum int | JStr string

record ride_form =
  pickup_address :: string
  destination_address :: string
  passenger_count :: jsval
  has_luggage :: bool

text \<open>The body of \<open>POST /rides/request\<close>; \<open>None\<close> in \<open>p_passenger_count\<close> is \<open>NaN\<close>.\<close>

record ride_payload =
  p_pickup_latitude :: real
  p_pickup_longitude :: real
  p_pickup_address :: string
  p_destination_address :: string
  p_passenger_count :: "int option"
  p_has_luggage :: bool

datatype request =
    GetMe
  | GetCustomerServiceInfo
  | GetTaxisNearby real real
  | PostDriverLocation real real
  | PostRidesRequest ride_payload

text \<open>
  A rejected axios call: \<open>Status n\<close> when \<open>error.response.status\<close> is \<open>n\<close>,
  \<open>NetworkError\<close> when there is no \<open>error.response\<close>.
\<close>

datatype failure = NetworkError | Status nat

type_synonym 'a response = "failure + 'a"

record app =
  user :: "profile option"
  currentLocation :: "position option"
  nearbyTaxis :: "taxi list"
  isLoading :: bool
  alert :: alert_state
  customerServiceInfo :: cs_info
  rideRequest :: ride_form
  token :: "string option"
  authorization :: "string option"
  sent :: "request list"
  console :: "string list"
  geo_requests :: nat
  now :: nat
  timeouts :: "nat list"

text \<open>
  \<open>token\<close> is \<open>localStorage.getItem('token')\<close>, \<open>authorization\<close> is
  \<open>axios.defaults.headers.common['Authorization']\<close>, \<open>sent\<close> the HTTP requests issued so
  far in order, \<open>console\<close> the messages given to \<open>console.error\<close>, \<open>geo_requests\<close> the
  number of calls of \<open>getCurrentPosition\<close>, \<open>now\<close> the clock in milliseconds and
  \<open>timeouts\<close> the due times of the pending \<open>setTimeout\<close> callbacks of \<open>showAlert\<close>.
\<close>

definition alert_hidden :: alert_state where
  "alert_hidden = \<lparr>alert_show = False, alert_type = [], alert_message = []\<rparr>"

definition rideRequest_init :: ride_form where
  "rideRequest_init =
     \<lparr>pickup_address = [], destination_address = [], passenger_count = JNum 1,
      has_luggage = False\<rparr>"

text \<open>The state of the first render, given what the local storage holds.\<close>

definition app_init :: "string option \<Rightarrow> app" where
  "app_init tok =
     \<lparr>user = None, currentLocation = None, nearbyTaxis = [], isLoading = False,
      alert = alert_hidden,
      customerServiceInfo = \<lparr>cs_phone = [], cs_message = []\<rparr>,
      rideRequest = rideRequest_init,
      token = tok, authorization = None, sent = [], console = [],
      geo_requests = 0, now = 0, timeouts = []\<rparr>"

subsection \<open>Notifications\<close>

text \<open>
  \<open>showAlert\<close> (lines 125-128) sets the alert and registers a timeout of 5000 ms whose
  callback hides the alert. It keeps no handle of the timeout and never clears one.
\<close>

definition showAlert :: "string \<Rightarrow> string \<Rightarrow> app \<Rightarrow> app" where
  "showAlert type message s =
     s\<lparr>alert := \<lparr>alert_show = True, alert_type = type, alert_message = message\<rparr>,
       timeouts := timeouts s @ [now s + 5000]\<rparr>"

text \<open>
  \<open>advance d\<close> lets \<open>d\<close> milliseconds pass: every timeout due by then runs its
  callback \<open>setAlert({show: false, type: '', message: ''})\<close> and is gone.
\<close>

definition advance :: "nat \<Rightarrow> app \<Rightarrow> app" where
  "advance d s =
     (let t = now s + d;
          due = filter (\<lambda>x. x \<le> t) (timeouts s)
      in s\<lparr>now := t,
           timeouts := filter (\<lambda>x. \<not> x \<le> t) (timeouts s),
           alert := (if due = [] then alert s else alert_hidden)\<rparr>)"

text \<open>A run of posts with waiting times in between: \<open>(d, type, message)\<close> waits \<open>d\<close> ms, then posts.\<close>

fun posts :: "(nat \<times> string \<times> string) list \<Rightarrow> app \<Rightarrow> app" where
  "posts [] s = s"
| "posts ((d, type, message) # ps) s = posts ps (showAlert type message (advance d s))"

subsection \<open>Startup effects\<close>

datatype geo = GeoAbsent | GeoSuccess real real | GeoError | GeoNoAnswer

text \<open>
  The geolocation effect (lines 82-100, dependency list \<open>[]\<close>: it runs once, at mount).
  \<open>GeoAbsent\<close>: \<open>navigator.geolocation\<close> is falsy. Otherwise one call of
  \<open>getCurrentPosition\<close>, which runs the success callback, the error callback, or none.
\<close>

definition default_location :: position where
  "default_location = \<lparr>lat = 24.7136, lng = 46.6753\<rparr>"

definition geolocation_effect :: "geo \<Rightarrow> app \<Rightarrow> app" where
  "geolocation_effect g s =
     (case g of
        GeoAbsent \<Rightarrow> s\<lparr>currentLocation := Some default_location\<rparr>
      | GeoSuccess la lo \<Rightarrow>
          s\<lparr>geo_requests := geo_requests s + 1,
            currentLocation := Some \<lparr>lat = la, lng = lo\<rparr>\<rparr>
      | GeoError \<Rightarrow>
          s\<lparr>geo_requests := geo_requests s + 1,
            console := console s @ [''Error getting location:''],
            currentLocation := Some default_location\<rparr>
      | GeoNoAnswer \<Rightarrow> s\<lparr>geo_requests := geo_requests s + 1\<rparr>)"

text \<open>\<open>fetchUserProfile\<close> (lines 130-138).\<close>

definition fetchUserProfile :: "profile response \<Rightarrow> app \<Rightarrow> app" where
  "fetchUserProfile r s =
     (let s1 = s\<lparr>sent := sent s @ [GetMe]\<rparr>
      in case r of
           Inr data \<Rightarrow> s1\<lparr>user := Some data\<rparr>
         | Inl e \<Rightarrow> s1\<lparr>token := None, authorization := None\<rparr>)"

text \<open>
  The restore effect (lines 103-109, runs once at mount). \<open>if (token)\<close> is false for a
  missing token and for the empty string.
\<close>

definition restore_effect :: "profile response \<Rightarrow> app \<Rightarrow> app" where
  "restore_effect r s =
     (case token s of
        None \<Rightarrow> s
      | Some t \<Rightarrow>
          if t = [] then s
          else fetchUserProfile r (s\<lparr>authorization := Some (''Bearer '' @ t)\<rparr>))"

text \<open>\<open>fetchCustomerServiceInfo\<close> (lines 140-147), called once by the effect of lines 112-114.\<close>

definition fetchCustomerServiceInfo :: "cs_info response \<Rightarrow> app \<Rightarrow> app" where
  "fetchCustomerServiceInfo r s =
     (let s1 = s\<lparr>sent := sent s @ [GetCustomerServiceInfo]\<rparr>
      in case r of
           Inr data \<Rightarrow> s1\<lparr>customerServiceInfo := data\<rparr>
         | Inl e \<Rightarrow> s1\<lparr>console := console s1 @ [''Error fetching customer service info:'']\<rparr>)"

text \<open>The three effects with an empty dependency list, in the order of the source.\<close>

definition mount :: "string option \<Rightarrow> geo \<Rightarrow> profile response \<Rightarrow> cs_info response \<Rightarrow> app" where
  "mount tok g rp rc =
     fetchCustomerServiceInfo rc (restore_effect rp (geolocation_effect g (app_init tok)))"

subsection \<open>Nearby taxis\<close>

text \<open>\<open>fetchNearbyTaxis\<close> (lines 149-160).\<close>

definition fetchNearbyTaxis :: "taxi list response \<Rightarrow> app \<Rightarrow> app" where
  "fetchNearbyTaxis r s =
     (case currentLocation s of
        None \<Rightarrow> s
      | Some loc \<Rightarrow>
          (let s1 = s\<lparr>sent := sent s @ [GetTaxisNearby (lat loc) (lng loc)]\<rparr>
           in case r of
                Inr data \<Rightarrow> s1\<lparr>nearbyTaxis := data\<rparr>
              | Inl e \<Rightarrow> s1\<lparr>console := console s1 @ [''Error fetching nearby taxis:'']\<rparr>))"

text \<open>
  The poller effect (lines 117-123): with a user and a position it fetches at once and
  registers the 30 s interval; the boolean says whether an interval is registered.
\<close>

definition nearbyTaxis_effect :: "taxi list response \<Rightarrow> app \<Rightarrow> app \<times> bool" where
  "nearbyTaxis_effect r s =
     (if user s \<noteq> None \<and> currentLocation s \<noteq> None then (fetchNearbyTaxis r s, True)
      else (s, False))"

subsection \<open>Driver location reports\<close>

definition activation_expired_message :: string where
  "activation_expired_message =
     [CHR 0xD8, CHR 0xA7, CHR 0xD9, CHR 0x86, CHR 0xD8, CHR 0xAA, CHR 0xD9, CHR 0x87,
      CHR 0xD8, CHR 0xAA, CHR 0x20, CHR 0xD8, CHR 0xB5, CHR 0xD9, CHR 0x84, CHR 0xD8,
      CHR 0xA7, CHR 0xD8, CHR 0xAD, CHR 0xD9, CHR 0x8A, CHR 0xD8, CHR 0xA9, CHR 0x20,
      CHR 0xD8, CHR 0xA7, CHR 0xD9, CHR 0x84, CHR 0xD8, CHR 0xAA, CHR 0xD9, CHR 0x81,
      CHR 0xD8, CHR 0xB9, CHR 0xD9, CHR 0x8A, CHR 0xD9, CHR 0x84, CHR 0x2E, CHR 0x20,
      CHR 0xD9, CHR 0x8A, CHR 0xD8, CHR 0xB1, CHR 0xD8, CHR 0xAC, CHR 0xD9, CHR 0x89,
      CHR 0x20, CHR 0xD8, CHR 0xAA, CHR 0xD8, CHR 0xAC, CHR 0xD8, CHR 0xAF, CHR 0xD9,
      CHR 0x8A, CHR 0xD8, CHR 0xAF, CHR 0x20, CHR 0xD8, CHR 0xA7, CHR 0xD9, CHR 0x84,
      CHR 0xD8, CHR 0xA7, CHR 0xD8, CHR 0xB4, CHR 0xD8, CHR 0xAA, CHR 0xD8, CHR 0xB1,
      CHR 0xD8, CHR 0xA7, CHR 0xD9, CHR 0x83, CHR 0x2E]"

text \<open>
  The condition of line 275, whose negation is the early return of line 222: a user, of
  type \<open>'driver'\<close>, a position, and \<open>is_activated\<close>.
\<close>

definition reporter_active :: "app \<Rightarrow> bool" where
  "reporter_active s =
     (case user s of
        None \<Rightarrow> False
      | Some u \<Rightarrow> user_type u = ''driver'' \<and> currentLocation s \<noteq> None \<and> is_activated u)"

text \<open>\<open>handleLocationUpdate\<close> (lines 221-235).\<close>

definition handleLocationUpdate :: "unit response \<Rightarrow> app \<Rightarrow> app" where
  "handleLocationUpdate r s =
     (case user s of
        None \<Rightarrow> s
      | Some u \<Rightarrow>
          if user_type u \<noteq> ''driver'' then s
          else
            (case currentLocation s of
               None \<Rightarrow> s
             | Some loc \<Rightarrow>
                 if \<not> is_activated u then s
                 else
                   (let s1 = s\<lparr>sent := sent s @ [PostDriverLocation (lat loc) (lng loc)]\<rparr>
                    in case r of
                         Inr _ \<Rightarrow> s1
                       | Inl e \<Rightarrow>
                           (let s2 = s1\<lparr>console := console s1 @ [''Error updating location:'']\<rparr>
                            in if e = Status 403
                               then showAlert ''error'' activation_expired_message s2
                               else s2))))"

text \<open>
  The reporter effect (lines 274-280): under the condition it reports at once and
  registers the 60 s interval; the boolean says whether an interval is registered.
\<close>

definition locationUpdate_effect :: "unit response \<Rightarrow> app \<Rightarrow> app \<times> bool" where
  "locationUpdate_effect r s =
     (if reporter_active s then (handleLocationUpdate r s, True) else (s, False))"

text \<open>The reports among the requests sent, and a run of interval ticks.\<close>

fun is_location_report :: "request \<Rightarrow> bool" where
  "is_location_report (PostDriverLocation la lo) = True"
| "is_location_report _ = False"

definition location_reports :: "app \<Rightarrow> request list" where
  "location_reports s = filter is_location_report (sent s)"

fun location_ticks :: "unit response list \<Rightarrow> app \<Rightarrow> app" where
  "location_ticks [] s = s"
| "location_ticks (r # rs) s = location_ticks rs (handleLocationUpdate r s)"

subsection \<open>Logout\<close>

text \<open>\<open>handleLogout\<close> (lines 260-265).\<close>

definition handleLogout :: "app \<Rightarrow> app" where
  "handleLogout s = s\<lparr>token := None, authorization := None, user := None, nearbyTaxis := []\<rparr>"

subsection \<open>Ride requests\<close>

text \<open>
  \<open>parseInt\<close> with no radix, after ECMAScript: leading white space is dropped, then an
  optional sign, then \<open>0x\<close> or \<open>0X\<close> selects radix 16 (otherwise 10), then the longest
  run of digits of that radix is read; no digit gives \<open>NaN\<close> (\<open>None\<close>). White space is
  matched on the UTF-8 bytes of the code points the language counts as white space or
  line terminators. The value is the exact integer: the model departs from the double
  the language returns only for runs of digits whose value exceeds 2^53.
\<close>

definition ws1 :: "char \<Rightarrow> bool" where
  "ws1 a = (let x = (of_char a :: nat) in (9 \<le> x \<and> x \<le> 13) \<or> x = 32)"

definition ws2 :: "char \<Rightarrow> char \<Rightarrow> bool" where
  "ws2 a b = ((of_char a :: nat) = 0xC2 \<and> (of_char b :: nat) = 0xA0)"

definition ws3 :: "char \<Rightarrow> char \<Rightarrow> char \<Rightarrow> bool" where
  "ws3 a b c =
     (let x = (of_char a :: nat); y = (of_char b :: nat); z = (of_char c :: nat)
      in (x = 0xE1 \<and> y = 0x9A \<and> z = 0x80)
       \<or> (x = 0xE2 \<and> y = 0x80 \<and> ((0x80 \<le> z \<and> z \<le> 0x8A) \<or> z = 0xA8 \<or> z = 0xA9 \<or> z = 0xAF))
       \<or> (x = 0xE2 \<and> y = 0x81 \<and> z = 0x9F)
       \<or> (x = 0xE3 \<and> y = 0x80 \<and> z = 0x80)
       \<or> (x = 0xEF \<and> y = 0xBB \<and> z = 0xBF))"

fun trimStart :: "string \<Rightarrow> string" where
  "trimStart (a # b # c # s) =
     (if ws1 a then trimStart (b # c # s)
      else if ws2 a b then trimStart (c # s)
      else if ws3 a b c then trimStart s
      else a # b # c # s)"
| "trimStart [a, b] = (if ws1 a then trimStart [b] else if ws2 a b then [] else [a, b])"
| "trimStart [a] = (if ws1 a then [] else [a])"
| "trimStart [] = []"

definition digit_value :: "char \<Rightarrow> nat option" where
  "digit_value c =
     (let x = (of_char c :: nat)
      in if 48 \<le> x \<and> x \<le> 57 then Some (x - 48)
         else if 97 \<le> x \<and> x \<le> 122 then Some (x - 87)
         else if 65 \<le> x \<and> x \<le> 90 then Some (x - 55)
         else None)"

fun radix_digits :: "nat \<Rightarrow> string \<Rightarrow> nat list" where
  "radix_digits R [] = []"
| "radix_digits R (c # cs) =
     (case digit_value c of
        None \<Rightarrow> []
      | Some d \<Rightarrow> if d < R then d # radix_digits R cs else [])"

definition parseInt_string :: "string \<Rightarrow> int option" where
  "parseInt_string inputString =
     (let S = trimStart inputString;
          negative = (S \<noteq> [] \<and> hd S = CHR ''-'');
          S1 = (if S \<noteq> [] \<and> (hd S = CHR ''+'' \<or> hd S = CHR ''-'') then tl S else S);
          hex = (take 2 S1 = ''0x'' \<or> take 2 S1 = ''0X'');
          R = (if hex then 16 else 10);
          Z = radix_digits R (if hex then drop 2 S1 else S1)
      in if Z = [] then None
         else Some ((if negative then - 1 else 1) * int (foldl (\<lambda>acc d. acc * R + d) 0 Z)))"

text \<open>
  A number is converted to a string first; for an integral number below 10^21 that string
  is its decimal numeral, which \<open>parseInt\<close> reads back, and the equation for \<open>JNum\<close>
  is meant for that range only (from 10^21 on the string is in exponent notation and the
  language returns its leading digits). The only number the code ever stores in
  \<open>passenger_count\<close> is \<open>1\<close>.
\<close>

fun parseInt :: "jsval \<Rightarrow> int option" where
  "parseInt (JNum n) = Some n"
| "parseInt (JStr s) = parseInt_string s"

definition current_location_sentinel :: string where
  "current_location_sentinel =
     [CHR 0xD8, CHR 0xA7, CHR 0xD9, CHR 0x84, CHR 0xD9, CHR 0x85, CHR 0xD9, CHR 0x88,
      CHR 0xD9, CHR 0x82, CHR 0xD8, CHR 0xB9, CHR 0x20, CHR 0xD8, CHR 0xA7, CHR 0xD9,
      CHR 0x84, CHR 0xD8, CHR 0xAD, CHR 0xD8, CHR 0xA7, CHR 0xD9, CHR 0x84, CHR 0xD9,
      CHR 0x8A]"

definition ride_sent_message :: string where
  "ride_sent_message =
     [CHR 0xD8, CHR 0xAA, CHR 0xD9, CHR 0x85, CHR 0x20, CHR 0xD8, CHR 0xA5, CHR 0xD8,
      CHR 0xB1, CHR 0xD8, CHR 0xB3, CHR 0xD8, CHR 0xA7, CHR 0xD9, CHR 0x84, CHR 0x20,
      CHR 0xD8, CHR 0xB7, CHR 0xD9, CHR 0x84, CHR 0xD8, CHR 0xA8, CHR 0x20, CHR 0xD8,
      CHR 0xA7, CHR 0xD9, CHR 0x84, CHR 0xD8, CHR 0xAA, CHR 0xD8, CHR 0xA7, CHR 0xD9,
      CHR 0x83, CHR 0xD8, CHR 0xB3, CHR 0xD9, CHR 0x8A, CHR 0x20, CHR 0xD8, CHR 0xA8,
      CHR 0xD9, CHR 0x86, CHR 0xD8, CHR 0xAC, CHR 0xD8, CHR 0xA7, CHR 0xD8, CHR 0xAD,
      CHR 0x21]"

definition ride_failed_message :: string where
  "ride_failed_message =
     [CHR 0xD8, CHR 0xAE, CHR 0xD8, CHR 0xB7, CHR 0xD8, CHR 0xA3, CHR 0x20, CHR 0xD9,
      CHR 0x81, CHR 0xD9, CHR 0x8A, CHR 0x20, CHR 0xD8, CHR 0xA5, CHR 0xD8, CHR 0xB1,
      CHR 0xD8, CHR 0xB3, CHR 0xD8, CHR 0xA7, CHR 0xD9, CHR 0x84, CHR 0x20, CHR 0xD8,
      CHR 0xA7, CHR 0xD9, CHR 0x84, CHR 0xD8, CHR 0xB7, CHR 0xD9, CHR 0x84, CHR 0xD8,
      CHR 0xA8, CHR 0x2E, CHR 0x20, CHR 0xD9, CHR 0x8A, CHR 0xD8, CHR 0xB1, CHR 0xD8,
      CHR 0xAC, CHR 0xD9, CHR 0x89, CHR 0x20, CHR 0xD8, CHR 0xA7, CHR 0xD9, CHR 0x84,
      CHR 0xD9, CHR 0x85, CHR 0xD8, CHR 0xAD, CHR 0xD8, CHR 0xA7, CHR 0xD9, CHR 0x88,
      CHR 0xD9, CHR 0x84, CHR 0xD8, CHR 0xA9, CHR 0x20, CHR 0xD9, CHR 0x85, CHR 0xD8,
      CHR 0xB1, CHR 0xD8, CHR 0xA9, CHR 0x20, CHR 0xD8, CHR 0xA3, CHR 0xD8, CHR 0xAE,
      CHR 0xD8, CHR 0xB1, CHR 0xD9, CHR 0x89, CHR 0x2E]"

text \<open>The request body built at lines 243-250 from the position and the form.\<close>

definition ride_body :: "position \<Rightarrow> ride_form \<Rightarrow> ride_payload" where
  "ride_body loc f =
     \<lparr>p_pickup_latitude = lat loc,
      p_pickup_longitude = lng loc,
      p_pickup_address =
        (if pickup_address f = [] then current_location_sentinel else pickup_address f),
      p_destination_address = destination_address f,
      p_passenger_count = parseInt (passenger_count f),
      p_has_luggage = has_luggage f\<rparr>"

text \<open>\<open>handleRideRequest\<close> (lines 237-258).\<close>

definition handleRideRequest :: "unit response \<Rightarrow> app \<Rightarrow> app" where
  "handleRideRequest r s =
     (case currentLocation s of
        None \<Rightarrow> s
      | Some loc \<Rightarrow>
          (let s1 = s\<lparr>isLoading := True,
                      sent := sent s @ [PostRidesRequest (ride_body loc (rideRequest s))]\<rparr>;
               s2 = (case r of
                       Inr _ \<Rightarrow>
                         (showAlert ''success'' ride_sent_message s1)
                           \<lparr>rideRequest := rideRequest_init\<rparr>
                     | Inl e \<Rightarrow> showAlert ''error'' ride_failed_message s1)
           in s2\<lparr>isLoading := False\<rparr>))"

text \<open>
  The form around it (lines 603-653) is on the screen only when there is a user (line 282
  returns the login screen otherwise) whose type is \<open>'passenger'\<close> (line 595).
\<close>

definition ride_form_rendered :: "app \<Rightarrow> bool" where
  "ride_form_rendered s =
     (case user s of None \<Rightarrow> False | Some u \<Rightarrow> user_type u = ''passenger'')"

text \<open>The \<open>onChange\<close> handlers of its fields (lines 609, 618, 628, 641).\<close>

definition pickup_address_onChange :: "string \<Rightarrow> app \<Rightarrow> app" where
  "pickup_address_onChange v s = s\<lparr>rideRequest := (rideRequest s)\<lparr>pickup_address := v\<rparr>\<rparr>"

definition destination_address_onChange :: "string \<Rightarrow> app \<Rightarrow> app" where
  "destination_address_onChange v s =
     s\<lparr>rideRequest := (rideRequest s)\<lparr>destination_address := v\<rparr>\<rparr>"

definition passenger_count_onChange :: "string \<Rightarrow> app \<Rightarrow> app" where
  "passenger_count_onChange v s = s\<lparr>rideRequest := (rideRequest s)\<lparr>passenger_count := JStr v\<rparr>\<rparr>"

definition has_luggage_onChange :: "string \<Rightarrow> app \<Rightarrow> app" where
  "has_luggage_onChange v s =
     s\<lparr>rideRequest := (rideRequest s)\<lparr>has_luggage := (v = ''true'')\<rparr>\<rparr>"

text \<open>
  The passenger count is a \<open>select\<close> with four options (lines 626-635): a change of
  the select hands one of their values to \<open>onChange\<close>, and nothing else does.
\<close>

definition passenger_count_options :: "string list" where
  "passenger_count_options = [''1'', ''2'', ''3'', ''4'']"

definition passenger_count_select :: "string \<Rightarrow> app \<Rightarrow> app" where
  "passenger_count_select v s =
     (if ride_form_rendered s \<and> v \<in> set passenger_count_options
      then passenger_count_onChange v s else s)"

text \<open>
  Modelled from the spec: the check of the destination field that precedes a submission.
  The field is the \<open>Input\<close> of \<open>./components/ui/input\<close> carrying the attribute
  \<open>required\<close> (line 619); that component is not among the sources, nor is the form
  validation it relies on. The specification (4.5 and 8): a submission validates that
  \<open>destination_address\<close> is non-empty, and an empty \<open>destination_address\<close> is rejected.
\<close>

definition destination_rejected :: "ride_form \<Rightarrow> bool" where
  "destination_rejected f = (destination_address f = [])"

text \<open>
  A submission of the form: \<open>onSubmit\<close> (line 603) calls \<open>handleRideRequest\<close> when the
  form is on the screen and the check of the destination field lets the submission pass.
\<close>

definition rideForm_submit :: "unit response \<Rightarrow> app \<Rightarrow> app" where
  "rideForm_submit r s =
     (if ride_form_rendered s \<and> \<not> destination_rejected (rideRequest s)
      then handleRideRequest r s else s)"

text \<open>
  What the specification asks of a ride request that leaves the client: a destination, and
  a passenger count from 1 to 4. The same for the count held in the form.
\<close>

definition count_in_range :: "int option \<Rightarrow> bool" where
  "count_in_range c = (case c of None \<Rightarrow> False | Some n \<Rightarrow> 1 \<le> n \<and> n \<le> 4)"

fun valid_ride_request :: "request \<Rightarrow> bool" where
  "valid_ride_request (PostRidesRequest p) =
     (p_destination_address p \<noteq> [] \<and> count_in_range (p_passenger_count p))"
| "valid_ride_request q = True"

definition ride_form_valid :: "app \<Rightarrow> bool" where
  "ride_form_valid s =
     (count_in_range (parseInt (passenger_count (rideRequest s))) \<and>
      list_all valid_ride_request (sent s))"

subsection \<open>The role states of the specification\<close>

text \<open>
  The specification names the states of the session; the code has no such variable, the
  state is what the guards of the code read off \<open>user\<close>.
\<close>

datatype role_state = anonymous | passenger_active | driver_pending_activation | driver_active

definition role_state_of :: "app \<Rightarrow> role_state" where
  "role_state_of s =
     (case user s of
        None \<Rightarrow> anonymous
      | Some u \<Rightarrow>
          if user_type u = ''driver''
          then (if is_activated u then driver_active else driver_pending_activation)
          else passenger_active)"

subsection \<open>Runs after startup\<close>

text \<open>
  What can happen after the startup effects: either effect with dependencies
  \<open>[user, currentLocation]\<close> runs, an interval ticks, a field of the ride form is
  edited while the form is on the screen, the form is submitted, the user logs out, or
  time passes.
\<close>

datatype event =
    NearbyEffect "taxi list response"
  | NearbyTick "taxi list response"
  | LocationEffect "unit response"
  | LocationTick "unit response"
  | SetPickupAddress string
  | SetDestinationAddress string
  | SelectPassengerCount string
  | SelectLuggage string
  | RideSubmit "unit response"
  | Logout
  | Elapse nat

fun step :: "event \<Rightarrow> app \<Rightarrow> app" where
  "step (NearbyEffect r) s = fst (nearbyTaxis_effect r s)"
| "step (NearbyTick r) s = fetchNearbyTaxis r s"
| "step (LocationEffect r) s = fst (locationUpdate_effect r s)"
| "step (LocationTick r) s = handleLocationUpdate r s"
| "step (SetPickupAddress v) s =
     (if ride_form_rendered s then pickup_address_onChange v s else s)"
| "step (SetDestinationAddress v) s =
     (if ride_form_rendered s then destination_address_onChange v s else s)"
| "step (SelectPassengerCount v) s = passenger_count_select v s"
| "step (SelectLuggage v) s =
     (if ride_form_rendered s then has_luggage_onChange v s else s)"
| "step (RideSubmit r) s = rideForm_submit r s"
| "step Logout s = handleLogout s"
| "step (Elapse d) s = advance d s"

fun run :: "event list \<Rightarrow> app \<Rightarrow> app" where
  "run [] s = s"
| "run (e # es) s = run es (step e s)"

text \<open>
  Concrete states: an activated driver with a position, the same driver not activated,
  and a passenger with a position.
\<close>

definition driver_example :: app where
  "driver_example =
     (app_init (Some ''tok''))
       \<lparr>user := Some \<lparr>name = ''Ali'', phone = ''0501234567'', user_type = ''driver'',
                       is_activated = True\<rparr>,
        currentLocation := Some default_location,
        authorization := Some ''Bearer tok''\<rparr>"

definition pending_driver_example :: app where
  "pending_driver_example =
     driver_example
       \<lparr>user := Some \<lparr>name = ''Ali'', phone = ''0501234567'', user_type = ''driver'',
                       is_activated = False\<rparr>\<rparr>"

definition passenger_profile :: profile where
  "passenger_profile =
     \<lparr>name = ''Sara'', phone = ''0507654321'', user_type = ''passenger'', is_activated = False\<rparr>"

definition passenger_example :: app where
  "passenger_example =
     (app_init (Some ''tok''))
       \<lparr>user := Some \<lparr>name = ''Sara'', phone = ''0507654321'', user_type = ''passenger'',
                       is_activated = False\<rparr>,
        currentLocation := Some \<lparr>lat = 21.5, lng = 39.25\<rparr>,
        authorization := Some ''Bearer tok''\<rparr>"

subsection \<open>What each handler leaves alone\<close>

lemma handleLocationUpdate_inactive:
  "\<not> reporter_active s \<Longrightarrow> handleLocationUpdate r s = s"
  by (auto simp: reporter_active_def handleLocationUpdate_def split: option.splits)

lemma fetchNearbyTaxis_frame:
  "user (fetchNearbyTaxis r s) = user s \<and>
   currentLocation (fetchNearbyTaxis r s) = currentLocation s \<and>
   location_reports (fetchNearbyTaxis r s) = location_reports s \<and>
   geo_requests (fetchNearbyTaxis r s) = geo_requests s \<and>
   customerServiceInfo (fetchNearbyTaxis r s) = customerServiceInfo s"
  by (simp add: fetchNearbyTaxis_def location_reports_def Let_def split: option.splits sum.splits)

lemma handleRideRequest_frame:
  "user (handleRideRequest r s) = user s \<and>
   currentLocation (handleRideRequest r s) = currentLocation s \<and>
   location_reports (handleRideRequest r s) = location_reports s \<and>
   geo_requests (handleRideRequest r s) = geo_requests s \<and>
   customerServiceInfo (handleRideRequest r s) = customerServiceInfo s"
  by (simp add: handleRideRequest_def location_reports_def showAlert_def Let_def
      split: option.splits sum.splits)

lemma handleLocationUpdate_frame:
  "user (handleLocationUpdate r s) = user s \<and>
   currentLocation (handleLocationUpdate r s) = currentLocation s \<and>
   geo_requests (handleLocationUpdate r s) = geo_requests s \<and>
   customerServiceInfo (handleLocationUpdate r s) = customerServiceInfo s"
  by (simp add: handleLocationUpdate_def showAlert_def Let_def split: option.splits sum.splits)

lemma advance_frame:
  "user (advance d s) = user s \<and>
   currentLocation (advance d s) = currentLocation s \<and>
   sent (advance d s) = sent s \<and>
   geo_requests (advance d s) = geo_requests s \<and>
   customerServiceInfo (advance d s) = customerServiceInfo s"
  by (simp add: advance_def Let_def)

lemma step_geo_requests: "geo_requests (step e s) = geo_requests s"
  by (cases e)
     (simp_all add: fetchNearbyTaxis_frame handleLocationUpdate_frame handleRideRequest_frame
        advance_frame nearbyTaxis_effect_def locationUpdate_effect_def rideForm_submit_def
        passenger_count_select_def passenger_count_onChange_def pickup_address_onChange_def
        destination_address_onChange_def has_luggage_onChange_def handleLogout_def)

lemma run_geo_requests: "geo_requests (run es s) = geo_requests s"
  by (induction es arbitrary: s) (simp_all add: step_geo_requests)

lemma step_customerServiceInfo: "customerServiceInfo (step e s) = customerServiceInfo s"
  by (cases e)
     (simp_all add: fetchNearbyTaxis_frame handleLocationUpdate_frame handleRideRequest_frame
        advance_frame nearbyTaxis_effect_def locationUpdate_effect_def rideForm_submit_def
        passenger_count_select_def passenger_count_onChange_def pickup_address_onChange_def
        destination_address_onChange_def has_luggage_onChange_def handleLogout_def)

lemma run_customerServiceInfo: "customerServiceInfo (run es s) = customerServiceInfo s"
  by (induction es arbitrary: s) (simp_all add: step_customerServiceInfo)

lemma reporter_active_cong:
  "user s' = user s \<Longrightarrow> currentLocation s' = currentLocation s \<Longrightarrow>
   reporter_active s' = reporter_active s"
  by (simp add: reporter_active_def split: option.splits)

lemma step_inactive:
  assumes "\<not> reporter_active s"
  shows "\<not> reporter_active (step e s) \<and> location_reports (step e s) = location_reports s"
proof (cases e)
  case (NearbyEffect r)
  with assms show ?thesis
    by (simp add: nearbyTaxis_effect_def fetchNearbyTaxis_frame
        reporter_active_cong [of "fetchNearbyTaxis r s" s])
next
  case (NearbyTick r)
  with assms show ?thesis
    by (simp add: fetchNearbyTaxis_frame reporter_active_cong [of "fetchNearbyTaxis r s" s])
next
  case (LocationEffect r)
  with assms show ?thesis by (simp add: locationUpdate_effect_def)
next
  case (LocationTick r)
  with assms show ?thesis by (simp add: handleLocationUpdate_inactive)
next
  case (SetPickupAddress v)
  with assms show ?thesis
    by (simp add: pickup_address_onChange_def reporter_active_def location_reports_def
        split: option.splits)
next
  case (SetDestinationAddress v)
  with assms show ?thesis
    by (simp add: destination_address_onChange_def reporter_active_def location_reports_def
        split: option.splits)
next
  case (SelectPassengerCount v)
  with assms show ?thesis
    by (simp add: passenger_count_select_def passenger_count_onChange_def reporter_active_def
        location_reports_def split: option.splits)
next
  case (SelectLuggage v)
  with assms show ?thesis
    by (simp add: has_luggage_onChange_def reporter_active_def location_reports_def
        split: option.splits)
next
  case (RideSubmit r)
  with assms show ?thesis
    by (simp add: rideForm_submit_def handleRideRequest_frame
        reporter_active_cong [of "handleRideRequest r s" s])
next
  case Logout
  with assms show ?thesis
    by (simp add: handleLogout_def reporter_active_def location_reports_def
        split: option.splits)
next
  case (Elapse d)
  with assms show ?thesis
    by (simp add: advance_frame reporter_active_cong [of "advance d s" s] location_reports_def)
qed

lemma run_inactive:
  "\<not> reporter_active s \<Longrightarrow>
   \<not> reporter_active (run es s) \<and> location_reports (run es s) = location_reports s"
proof (induction es arbitrary: s)
  case Nil
  then show ?case by simp
next
  case (Cons e es)
  from step_inactive [OF Cons.prems, of e]
  have a: "\<not> reporter_active (step e s)" and b: "location_reports (step e s) = location_reports s"
    by simp_all
  from Cons.IH [OF a] b show ?case by simp
qed

lemma location_ticks_inactive: "\<not> reporter_active s \<Longrightarrow> location_ticks rs s = s"
  by (induction rs) (simp_all add: handleLocationUpdate_inactive)

lemma reporter_active_iff:
  "reporter_active s \<longleftrightarrow>
   (\<exists>u. user s = Some u \<and> user_type u = ''driver'' \<and> is_activated u) \<and> currentLocation s \<noteq> None"
  by (auto simp: reporter_active_def split: option.splits)

lemma handleLocationUpdate_active_sent:
  assumes "user s = Some u" "user_type u = ''driver''" "is_activated u"
    and "currentLocation s = Some loc"
  shows "sent (handleLocationUpdate r s) = sent s @ [PostDriverLocation (lat loc) (lng loc)]"
  using assms
  by (simp add: handleLocationUpdate_def showAlert_def Let_def split: sum.splits)

lemma advance_timeouts_length: "length (timeouts (advance d s)) \<le> length (timeouts s)"
  by (simp add: advance_def Let_def)

lemma posts_timeouts_length: "length (timeouts (posts ps s)) \<le> length (timeouts s) + length ps"
proof (induction ps arbitrary: s)
  case Nil
  then show ?case by simp
next
  case (Cons p ps)
  obtain d k m where p: "p = (d, k, m)" by (cases p)
  have "length (timeouts (posts ps (showAlert k m (advance d s))))
          \<le> length (timeouts (showAlert k m (advance d s))) + length ps"
    by (rule Cons.IH)
  also have "length (timeouts (showAlert k m (advance d s))) = length (timeouts (advance d s)) + 1"
    by (simp add: showAlert_def)
  finally show ?case
    using advance_timeouts_length [of d s] by (simp add: p)
qed

lemma parseInt_options:
  "parseInt (JStr ''1'') = Some 1 \<and> parseInt (JStr ''2'') = Some 2 \<and>
   parseInt (JStr ''3'') = Some 3 \<and> parseInt (JStr ''4'') = Some 4"
  by (simp add: parseInt_string_def ws1_def ws2_def ws3_def digit_value_def)

lemma handleRideRequest_sent:
  "currentLocation s = Some loc \<Longrightarrow>
   sent (handleRideRequest r s) = sent s @ [PostRidesRequest (ride_body loc (rideRequest s))]"
  by (simp add: handleRideRequest_def showAlert_def Let_def split: sum.splits)

lemma count_in_range_options:
  "v \<in> set passenger_count_options \<Longrightarrow> count_in_range (parseInt (JStr v))"
  using parseInt_options
  by (auto simp: passenger_count_options_def count_in_range_def simp del: parseInt.simps)

lemma ride_form_valid_append:
  "ride_form_valid (s\<lparr>sent := sent s @ [q]\<rparr>) = (ride_form_valid s \<and> valid_ride_request q)"
  by (auto simp: ride_form_valid_def)

lemma ride_form_valid_cong:
  "rideRequest s' = rideRequest s \<Longrightarrow> sent s' = sent s \<Longrightarrow>
   ride_form_valid s' = ride_form_valid s"
  by (simp add: ride_form_valid_def)

lemma fetchNearbyTaxis_valid:
  "ride_form_valid (fetchNearbyTaxis r s) = ride_form_valid s"
  by (simp add: fetchNearbyTaxis_def ride_form_valid_def Let_def split: option.splits sum.splits)

lemma handleLocationUpdate_valid:
  "ride_form_valid (handleLocationUpdate r s) = ride_form_valid s"
  by (simp add: handleLocationUpdate_def showAlert_def ride_form_valid_def Let_def
      split: option.splits sum.splits)

lemma handleRideRequest_valid:
  assumes "ride_form_valid s" "destination_address (rideRequest s) \<noteq> []"
  shows "ride_form_valid (handleRideRequest r s)"
proof (cases "currentLocation s")
  case None
  with assms show ?thesis by (simp add: handleRideRequest_def)
next
  case (Some loc)
  have v: "valid_ride_request (PostRidesRequest (ride_body loc (rideRequest s)))"
    using assms by (simp add: ride_body_def ride_form_valid_def)
  have f: "rideRequest (handleRideRequest r s) = rideRequest s \<or>
           rideRequest (handleRideRequest r s) = rideRequest_init"
    using Some by (simp add: handleRideRequest_def showAlert_def Let_def split: sum.splits)
  have i: "count_in_range (parseInt (passenger_count rideRequest_init))"
    by (simp add: rideRequest_init_def count_in_range_def)
  from f i assms(1) have c: "count_in_range (parseInt (passenger_count (rideRequest (handleRideRequest r s))))"
    by (auto simp: ride_form_valid_def)
  from assms(1) v c show ?thesis
    by (simp add: ride_form_valid_def handleRideRequest_sent [OF Some])
qed

lemma step_valid:
  assumes "ride_form_valid s"
  shows "ride_form_valid (step e s)"
proof (cases e)
  case (NearbyEffect r)
  with assms show ?thesis by (simp add: nearbyTaxis_effect_def fetchNearbyTaxis_valid)
next
  case (NearbyTick r)
  with assms show ?thesis by (simp add: fetchNearbyTaxis_valid)
next
  case (LocationEffect r)
  with assms show ?thesis by (simp add: locationUpdate_effect_def handleLocationUpdate_valid)
next
  case (LocationTick r)
  with assms show ?thesis by (simp add: handleLocationUpdate_valid)
next
  case (SetPickupAddress v)
  with assms show ?thesis by (simp add: pickup_address_onChange_def ride_form_valid_def)
next
  case (SetDestinationAddress v)
  with assms show ?thesis by (simp add: destination_address_onChange_def ride_form_valid_def)
next
  case (SelectPassengerCount v)
  with assms count_in_range_options [of v] show ?thesis
    by (simp add: passenger_count_select_def passenger_count_onChange_def ride_form_valid_def
        del: parseInt.simps)
next
  case (SelectLuggage v)
  with assms show ?thesis by (simp add: has_luggage_onChange_def ride_form_valid_def)
next
  case (RideSubmit r)
  with assms show ?thesis
    by (simp add: rideForm_submit_def destination_rejected_def handleRideRequest_valid)
next
  case Logout
  with assms show ?thesis by (simp add: handleLogout_def ride_form_valid_def)
next
  case (Elapse d)
  with assms show ?thesis by (simp add: advance_def ride_form_valid_def Let_def)
qed

lemma run_valid: "ride_form_valid s \<Longrightarrow> ride_form_valid (run es s)"
  by (induction es arbitrary: s) (simp_all add: step_valid)

lemma mount_valid: "ride_form_valid (mount tok g rp rc)"
  by (simp add: ride_form_valid_def mount_def restore_effect_def fetchUserProfile_def
      fetchCustomerServiceInfo_def geolocation_effect_def app_init_def rideRequest_init_def
      count_in_range_def Let_def split: option.splits sum.splits geo.splits)

lemma valid_ride_request_iff:
  "valid_ride_request (PostRidesRequest p) \<longleftrightarrow>
   p_destination_address p \<noteq> [] \<and> (\<exists>n. p_passenger_count p = Some n \<and> 1 \<le> n \<and> n \<le> 4)"
  by (auto simp: count_in_range_def split: option.splits)

lemma passenger_mount:
  "mount (Some ''tok'') (GeoSuccess 21 39) (Inr passenger_profile) (Inl NetworkError) =
     (app_init None)
       \<lparr>user := Some passenger_profile,
        currentLocation := Some \<lparr>lat = 21, lng = 39\<rparr>,
        token := Some ''tok'',
        authorization := Some ''Bearer tok'',
        sent := [GetMe, GetCustomerServiceInfo],
        console := [''Error fetching customer service info:''],
        geo_requests := 1\<rparr>"
  by (simp add: mount_def restore_effect_def fetchUserProfile_def fetchCustomerServiceInfo_def
      geolocation_effect_def app_init_def Let_def)

subsection \<open>Properties\<close>

text \<open>
  C9. Logout removes the persisted token, deletes the Authorization header, clears the
  profile and empties the list of nearby taxis at once, whatever the last poll had put there.
\<close>

theorem handleLogout_clears:
  "token (handleLogout s) = None \<and> authorization (handleLogout s) = None \<and>
   user (handleLogout s) = None \<and> nearbyTaxis (handleLogout s) = []"
  by (simp add: handleLogout_def)

text \<open>
  C1. The location reporter needs a user, of type driver, activated, and a position. In
  every state where one of these is missing (so for every driver profile that is not
  activated) the effect registers no interval and reports nothing, a call of
  \<open>handleLocationUpdate\<close> returns without sending, any number of interval ticks leaves
  the state as it is, and no run of later events adds a location report to the requests sent.
\<close>

theorem location_reporter_inactive_sends_nothing:
  assumes "user s = None \<or> currentLocation s = None \<or>
           (\<exists>u. user s = Some u \<and> (user_type u \<noteq> ''driver'' \<or> \<not> is_activated u))"
  shows "locationUpdate_effect r s = (s, False) \<and>
         handleLocationUpdate r s = s \<and>
         location_ticks rs s = s \<and>
         location_reports (run es s) = location_reports s"
proof -
  from assms have na: "\<not> reporter_active s"
    by (auto simp: reporter_active_iff)
  then show ?thesis
    by (simp add: locationUpdate_effect_def handleLocationUpdate_inactive
        location_ticks_inactive run_inactive)
qed

theorem location_reporter_inactive_sends_nothing_witness:
  "(\<exists>u. user pending_driver_example = Some u \<and> \<not> is_activated u) \<and>
   locationUpdate_effect (Inr ()) pending_driver_example = (pending_driver_example, False) \<and>
   location_reports
     (run [LocationEffect (Inr ()), Elapse 60000, LocationTick (Inr ()), NearbyTick (Inl NetworkError)]
        pending_driver_example) = []"
proof -
  have h: "user pending_driver_example = None \<or> currentLocation pending_driver_example = None \<or>
           (\<exists>u. user pending_driver_example = Some u \<and> (user_type u \<noteq> ''driver'' \<or> \<not> is_activated u))"
    by (simp add: pending_driver_example_def)
  have u: "\<exists>u. user pending_driver_example = Some u \<and> \<not> is_activated u"
    by (simp add: pending_driver_example_def)
  have z: "location_reports pending_driver_example = []"
    by (simp add: pending_driver_example_def driver_example_def app_init_def location_reports_def)
  from location_reporter_inactive_sends_nothing
         [OF h, of "Inr ()" "[]"
            "[LocationEffect (Inr ()), Elapse 60000, LocationTick (Inr ()), NearbyTick (Inl NetworkError)]"]
       u z
  show ?thesis
    by (simp del: run.simps step.simps)
qed

text \<open>
  The transition to the pending state that the specification describes does not happen:
  after a 403 the example driver is still active and the next tick reports again.
\<close>

theorem location_403_no_transition_counterexample:
  "role_state_of driver_example = driver_active \<and>
   role_state_of (handleLocationUpdate (Inl (Status 403)) driver_example) = driver_active \<and>
   location_reports
     (handleLocationUpdate (Inr ()) (handleLocationUpdate (Inl (Status 403)) driver_example)) =
     [PostDriverLocation 24.7136 46.6753, PostDriverLocation 24.7136 46.6753]"
  by (simp add: role_state_of_def handleLocationUpdate_def driver_example_def app_init_def
      default_location_def showAlert_def location_reports_def Let_def)

text \<open>
  C2 (as the code has it). When a report of an active driver is answered with 403, the
  handler appends the report to the requests sent, logs the error, posts the error
  notification with the activation-expired message and registers its 5 s timeout, and
  changes nothing else in the state. In particular the profile and the position, the two
  dependencies of the reporter's effect, are as before: the driver stays in the active
  state, the reporter's condition still holds, the effect keeps reporting with its
  interval registered, and the next tick sends a second report.
\<close>

theorem location_403_only_posts_alert:
  assumes "reporter_active s" and "currentLocation s = Some loc"
  shows "handleLocationUpdate (Inl (Status 403)) s =
           s\<lparr>sent := sent s @ [PostDriverLocation (lat loc) (lng loc)],
             console := console s @ [''Error updating location:''],
             alert := \<lparr>alert_show = True, alert_type = ''error'',
                        alert_message = activation_expired_message\<rparr>,
             timeouts := timeouts s @ [now s + 5000]\<rparr> \<and>
         alert (handleLocationUpdate (Inl (Status 403)) s) =
           \<lparr>alert_show = True, alert_type = ''error'',
            alert_message = activation_expired_message\<rparr> \<and>
         timeouts (handleLocationUpdate (Inl (Status 403)) s) = timeouts s @ [now s + 5000] \<and>
         user (handleLocationUpdate (Inl (Status 403)) s) = user s \<and>
         currentLocation (handleLocationUpdate (Inl (Status 403)) s) = currentLocation s \<and>
         role_state_of (handleLocationUpdate (Inl (Status 403)) s) = driver_active \<and>
         reporter_active (handleLocationUpdate (Inl (Status 403)) s) \<and>
         locationUpdate_effect r (handleLocationUpdate (Inl (Status 403)) s) =
           (handleLocationUpdate r (handleLocationUpdate (Inl (Status 403)) s), True) \<and>
         sent (handleLocationUpdate r (handleLocationUpdate (Inl (Status 403)) s)) =
           sent s @ [PostDriverLocation (lat loc) (lng loc), PostDriverLocation (lat loc) (lng loc)] \<and>
         length (location_reports
                   (handleLocationUpdate r (handleLocationUpdate (Inl (Status 403)) s))) =
           length (location_reports s) + 2"
proof -
  let ?s' = "handleLocationUpdate (Inl (Status 403)) s"
  from assms(1) obtain u where
    u: "user s = Some u" "user_type u = ''driver''" "is_activated u"
    by (auto simp: reporter_active_iff)
  note loc = assms(2)
  have s': "?s' = s\<lparr>sent := sent s @ [PostDriverLocation (lat loc) (lng loc)],
             console := console s @ [''Error updating location:''],
             alert := \<lparr>alert_show = True, alert_type = ''error'',
                        alert_message = activation_expired_message\<rparr>,
             timeouts := timeouts s @ [now s + 5000]\<rparr>"
    using u loc by (simp add: handleLocationUpdate_def showAlert_def Let_def)
  have a: "alert ?s' = \<lparr>alert_show = True, alert_type = ''error'',
                         alert_message = activation_expired_message\<rparr>"
    and t: "timeouts ?s' = timeouts s @ [now s + 5000]"
    and se: "sent ?s' = sent s @ [PostDriverLocation (lat loc) (lng loc)]"
    by (simp_all add: s')
  have fr: "user ?s' = user s" "currentLocation ?s' = currentLocation s"
    by (simp_all add: handleLocationUpdate_frame)
  have act: "reporter_active ?s'"
    using assms(1) fr by (simp add: reporter_active_cong [of ?s' s])
  have rs: "role_state_of ?s' = driver_active"
    using fr u by (simp add: role_state_of_def)
  have se2: "sent (handleLocationUpdate r ?s') = sent ?s' @ [PostDriverLocation (lat loc) (lng loc)]"
    using fr u loc by (simp add: handleLocationUpdate_active_sent [of ?s' u loc r])
  have n: "length (location_reports (handleLocationUpdate r ?s')) = length (location_reports s) + 2"
    by (simp add: location_reports_def se2 se)
  have eff: "locationUpdate_effect r ?s' = (handleLocationUpdate r ?s', True)"
    using act by (simp add: locationUpdate_effect_def)
  have se3: "sent (handleLocationUpdate r ?s') =
           sent s @ [PostDriverLocation (lat loc) (lng loc), PostDriverLocation (lat loc) (lng loc)]"
    by (simp add: se2 se)
  show ?thesis
    by (intro conjI) (rule s' a t fr rs act eff se3 n)+
qed

text \<open>The activated driver of the example, a 403 and then a tick.\<close>

theorem location_403_only_posts_alert_witness:
  "reporter_active driver_example \<and>
   currentLocation driver_example = Some default_location \<and>
   handleLocationUpdate (Inl (Status 403)) driver_example =
     driver_example
       \<lparr>sent := [PostDriverLocation 24.7136 46.6753],
        console := [''Error updating location:''],
        alert := \<lparr>alert_show = True, alert_type = ''error'',
                   alert_message = activation_expired_message\<rparr>,
        timeouts := [5000]\<rparr> \<and>
   role_state_of (handleLocationUpdate (Inl (Status 403)) driver_example) = driver_active \<and>
   length (location_reports
             (handleLocationUpdate (Inl NetworkError)
                (handleLocationUpdate (Inl (Status 403)) driver_example))) = 2"
proof -
  have h: "reporter_active driver_example"
    by (simp add: reporter_active_def driver_example_def app_init_def)
  have l: "currentLocation driver_example = Some default_location"
    by (simp add: driver_example_def)
  have z: "location_reports driver_example = []" "sent driver_example = []"
    "console driver_example = []" "timeouts driver_example = []" "now driver_example = 0"
    by (simp_all add: driver_example_def app_init_def location_reports_def)
  have d: "lat default_location = 24.7136" "lng default_location = 46.6753"
    by (simp_all add: default_location_def)
  note th = location_403_only_posts_alert [OF h l, of "Inl NetworkError"]
  from th have e1: "handleLocationUpdate (Inl (Status 403)) driver_example =
           driver_example
             \<lparr>sent := sent driver_example @
                      [PostDriverLocation (lat default_location) (lng default_location)],
              console := console driver_example @ [''Error updating location:''],
              alert := \<lparr>alert_show = True, alert_type = ''error'',
                         alert_message = activation_expired_message\<rparr>,
              timeouts := timeouts driver_example @ [now driver_example + 5000]\<rparr>"
    by (rule conjunct1)
  have e1': "handleLocationUpdate (Inl (Status 403)) driver_example =
     driver_example
       \<lparr>sent := [PostDriverLocation 24.7136 46.6753],
        console := [''Error updating location:''],
        alert := \<lparr>alert_show = True, alert_type = ''error'',
                   alert_message = activation_expired_message\<rparr>,
        timeouts := [5000]\<rparr>"
    by (simp add: e1 z d)
  from th have e2: "role_state_of (handleLocationUpdate (Inl (Status 403)) driver_example) =
      driver_active"
    by blast
  from th have "length (location_reports
             (handleLocationUpdate (Inl NetworkError)
                (handleLocationUpdate (Inl (Status 403)) driver_example))) =
        length (location_reports driver_example) + 2"
    by blast
  then have e3: "length (location_reports
             (handleLocationUpdate (Inl NetworkError)
                (handleLocationUpdate (Inl (Status 403)) driver_example))) = 2"
    by (simp add: z)
  show ?thesis
    by (intro conjI) (rule h l e1' e2 e3)+
qed

text \<open>
  The earlier timeout is not cancelled: a notification posted at 4000 ms, one second
  before the timeout of the post at 0 ms falls due, is hidden at 5000 ms.
\<close>

theorem showAlert_stale_timer_counterexample:
  "timeouts (posts [(0, ''success'', ''first''), (4000, ''error'', ''second'')] (app_init None)) =
     [5000, 9000] \<and>
   alert (posts [(0, ''success'', ''first''), (4000, ''error'', ''second'')] (app_init None)) =
     \<lparr>alert_show = True, alert_type = ''error'', alert_message = ''second''\<rparr> \<and>
   alert (advance 1000
            (posts [(0, ''success'', ''first''), (4000, ''error'', ''second'')] (app_init None))) =
     alert_hidden"
  by (simp add: showAlert_def advance_def app_init_def Let_def)

text \<open>
  C3 (as the code has it). A post replaces the displayed notification and registers one
  new timeout, 5000 ms ahead, behind the timeouts already pending, none of which is
  cancelled; a run of posts leaves at most one pending timeout per post; as soon as any
  pending timeout is due the notification displayed then is hidden, and while none is
  due the passing of time changes nothing but the clock.
\<close>

theorem showAlert_registers_one_timer_keeps_others:
  "alert (showAlert k m s) = \<lparr>alert_show = True, alert_type = k, alert_message = m\<rparr> \<and>
   timeouts (showAlert k m s) = timeouts s @ [now s + 5000] \<and>
   length (timeouts (posts ps s)) \<le> length (timeouts s) + length ps \<and>
   ((\<exists>x \<in> set (timeouts s). x \<le> now s + d) \<longrightarrow> alert (advance d s) = alert_hidden) \<and>
   ((\<forall>x \<in> set (timeouts s). now s + d < x) \<longrightarrow> advance d s = s\<lparr>now := now s + d\<rparr>)"
proof -
  have a: "(\<exists>x \<in> set (timeouts s). x \<le> now s + d) \<longrightarrow> alert (advance d s) = alert_hidden"
    by (auto simp: advance_def Let_def filter_empty_conv)
  have b: "(\<forall>x \<in> set (timeouts s). now s + d < x) \<longrightarrow> advance d s = s\<lparr>now := now s + d\<rparr>"
  proof
    assume h: "\<forall>x \<in> set (timeouts s). now s + d < x"
    then have "filter (\<lambda>x. x \<le> now s + d) (timeouts s) = []"
      by (auto simp: filter_empty_conv)
    moreover from h have "filter (\<lambda>x. \<not> x \<le> now s + d) (timeouts s) = timeouts s"
      by (auto simp: filter_id_conv)
    ultimately show "advance d s = s\<lparr>now := now s + d\<rparr>"
      by (simp add: advance_def Let_def)
  qed
  from a b posts_timeouts_length [of ps s] show ?thesis
    by (simp add: showAlert_def)
qed

text \<open>
  One post: hidden at 5000 ms, still displayed at 4999 ms.
\<close>

theorem showAlert_registers_one_timer_keeps_others_witness:
  "(\<exists>x \<in> set (timeouts (showAlert ''success'' ''first'' (app_init None))). x \<le> 5000) \<and>
   alert (advance 5000 (showAlert ''success'' ''first'' (app_init None))) = alert_hidden \<and>
   alert (advance 4999 (showAlert ''success'' ''first'' (app_init None))) =
     \<lparr>alert_show = True, alert_type = ''success'', alert_message = ''first''\<rparr>"
proof -
  let ?s = "showAlert ''success'' ''first'' (app_init None)"
  have t: "timeouts ?s = [5000]" and n: "now ?s = 0"
    and al: "alert ?s = \<lparr>alert_show = True, alert_type = ''success'', alert_message = ''first''\<rparr>"
    by (simp_all add: showAlert_def app_init_def)
  have h1: "\<exists>x \<in> set (timeouts ?s). x \<le> now ?s + 5000" by (simp add: t n)
  have h2: "\<forall>x \<in> set (timeouts ?s). now ?s + 4999 < x" by (simp add: t n)
  from showAlert_registers_one_timer_keeps_others [of "''x''" "''y''" ?s "[]" 5000] h1
  have c1: "alert (advance 5000 ?s) = alert_hidden" by blast
  from showAlert_registers_one_timer_keeps_others [of "''x''" "''y''" ?s "[]" 4999] h2
  have c2: "advance 4999 ?s = ?s\<lparr>now := now ?s + 4999\<rparr>" by blast
  have c3: "alert (advance 4999 ?s) = alert ?s" by (simp add: c2)
  from h1 c1 c3 al show ?thesis by (simp add: n)
qed

text \<open>
  C4. A fetch of the nearby taxis that fails leaves the held list as it was, from the
  interval tick and from the effect's immediate call alike, so a list that was not empty
  is not emptied; a fetch that succeeds puts the response in place of the list, with
  nothing of the old list kept.
\<close>

theorem fetchNearbyTaxis_replaces_or_keeps:
  "nearbyTaxis (fetchNearbyTaxis (Inl e) s) = nearbyTaxis s \<and>
   nearbyTaxis (fst (nearbyTaxis_effect (Inl e) s)) = nearbyTaxis s \<and>
   (nearbyTaxis s \<noteq> [] \<longrightarrow> nearbyTaxis (fetchNearbyTaxis (Inl e) s) \<noteq> []) \<and>
   (currentLocation s \<noteq> None \<longrightarrow> nearbyTaxis (fetchNearbyTaxis (Inr data) s) = data) \<and>
   (user s \<noteq> None \<and> currentLocation s \<noteq> None \<longrightarrow>
      nearbyTaxis (fst (nearbyTaxis_effect (Inr data) s)) = data)"
proof -
  have keep: "nearbyTaxis (fetchNearbyTaxis (Inl e) s) = nearbyTaxis s"
    by (simp add: fetchNearbyTaxis_def Let_def split: option.splits)
  have repl: "currentLocation s \<noteq> None \<longrightarrow> nearbyTaxis (fetchNearbyTaxis (Inr data) s) = data"
    by (auto simp: fetchNearbyTaxis_def Let_def)
  from keep repl show ?thesis
    by (simp add: nearbyTaxis_effect_def)
qed

text \<open>
  A passenger holding one taxi: a successful poll replaces it, a failed one keeps it.
\<close>

theorem fetchNearbyTaxis_replaces_or_keeps_witness:
  "nearbyTaxis
     (fetchNearbyTaxis (Inr [\<lparr>taxi_id = ''t2'', driver_name = ''Omar'', latitude = 21.6, longitude = 39.1\<rparr>])
        (passenger_example
           \<lparr>nearbyTaxis := [\<lparr>taxi_id = ''t1'', driver_name = ''Ali'', latitude = 21.5, longitude = 39.2\<rparr>]\<rparr>)) =
     [\<lparr>taxi_id = ''t2'', driver_name = ''Omar'', latitude = 21.6, longitude = 39.1\<rparr>] \<and>
   nearbyTaxis
     (fetchNearbyTaxis (Inl (Status 500))
        (passenger_example
           \<lparr>nearbyTaxis := [\<lparr>taxi_id = ''t1'', driver_name = ''Ali'', latitude = 21.5, longitude = 39.2\<rparr>]\<rparr>)) =
     [\<lparr>taxi_id = ''t1'', driver_name = ''Ali'', latitude = 21.5, longitude = 39.2\<rparr>]"
proof -
  let ?old = "[\<lparr>taxi_id = ''t1'', driver_name = ''Ali'', latitude = 21.5, longitude = 39.2\<rparr>]"
  let ?new = "[\<lparr>taxi_id = ''t2'', driver_name = ''Omar'', latitude = 21.6, longitude = 39.1\<rparr>]"
  let ?s = "passenger_example\<lparr>nearbyTaxis := ?old\<rparr>"
  have h: "user ?s \<noteq> None \<and> currentLocation ?s \<noteq> None" and ne: "nearbyTaxis ?s \<noteq> []"
    by (simp_all add: passenger_example_def)
  from fetchNearbyTaxis_replaces_or_keeps [of "Status 500" ?s ?new] h ne
  show ?thesis by simp
qed

text \<open>
  C5. With a token persisted at startup, a profile fetch that fails with any error is
  still sent once, and after the startup effects the token is removed from the storage,
  the Authorization header is deleted, there is no user, no notification is displayed
  and no dismissal timeout is pending. \<open>fetchUserProfile\<close> itself, from any state,
  removes token and header on failure and touches neither user nor notification.
\<close>

theorem restore_failure_silent:
  assumes "t \<noteq> []"
  shows "sent (restore_effect (Inl e) (app_init (Some t))) = [GetMe] \<and>
         token (mount (Some t) g (Inl e) rc) = None \<and>
         authorization (mount (Some t) g (Inl e) rc) = None \<and>
         user (mount (Some t) g (Inl e) rc) = None \<and>
         alert (mount (Some t) g (Inl e) rc) = alert_hidden \<and>
         timeouts (mount (Some t) g (Inl e) rc) = [] \<and>
         token (fetchUserProfile (Inl e) s) = None \<and>
         authorization (fetchUserProfile (Inl e) s) = None \<and>
         user (fetchUserProfile (Inl e) s) = user s \<and>
         alert (fetchUserProfile (Inl e) s) = alert s \<and>
         timeouts (fetchUserProfile (Inl e) s) = timeouts s"
  using assms
  by (simp add: mount_def restore_effect_def fetchUserProfile_def fetchCustomerServiceInfo_def
      geolocation_effect_def app_init_def Let_def split: geo.splits sum.splits)

text \<open>
  A stored token rejected with 401.
\<close>

theorem restore_failure_silent_witness:
  "''tok'' \<noteq> [] \<and>
   token (mount (Some ''tok'') GeoError (Inl (Status 401)) (Inl NetworkError)) = None \<and>
   authorization (mount (Some ''tok'') GeoError (Inl (Status 401)) (Inl NetworkError)) = None \<and>
   user (mount (Some ''tok'') GeoError (Inl (Status 401)) (Inl NetworkError)) = None \<and>
   alert (mount (Some ''tok'') GeoError (Inl (Status 401)) (Inl NetworkError)) = alert_hidden"
proof -
  have h: "''tok'' \<noteq> []" by simp
  from restore_failure_silent [OF h, of "Status 401" GeoError "Inl NetworkError"] h
  show ?thesis by simp
qed

text \<open>
  C8. The startup asks for the device position once when the capability is there and not
  at all when it is absent, and no run of later events asks again, whatever the answer
  was; when the capability is absent or the request is refused the position is the one
  default coordinate (24.7136, 46.6753), and a delivered position is taken as it is.
\<close>

theorem geolocation_once_with_fallback:
  "geo_requests (run es (mount tok GeoAbsent rp rc)) = 0 \<and>
   geo_requests (run es (mount tok GeoError rp rc)) = 1 \<and>
   geo_requests (run es (mount tok (GeoSuccess la lo) rp rc)) = 1 \<and>
   geo_requests (run es (mount tok GeoNoAnswer rp rc)) = 1 \<and>
   currentLocation (mount tok GeoAbsent rp rc) = Some \<lparr>lat = 24.7136, lng = 46.6753\<rparr> \<and>
   currentLocation (mount tok GeoError rp rc) = Some \<lparr>lat = 24.7136, lng = 46.6753\<rparr> \<and>
   currentLocation (mount tok (GeoSuccess la lo) rp rc) = Some \<lparr>lat = la, lng = lo\<rparr>"
  by (simp add: run_geo_requests mount_def restore_effect_def fetchUserProfile_def
      fetchCustomerServiceInfo_def geolocation_effect_def app_init_def default_location_def
      Let_def split: option.splits sum.splits)

text \<open>
  C10. A failed fetch of the customer service info changes neither the info nor the
  notification nor the pending timeouts; at startup it leaves no notification displayed,
  and through every later run the info stays at its default of empty phone and message.
\<close>

theorem customer_service_failure_silent:
  "customerServiceInfo (fetchCustomerServiceInfo (Inl e) s) = customerServiceInfo s \<and>
   alert (fetchCustomerServiceInfo (Inl e) s) = alert s \<and>
   timeouts (fetchCustomerServiceInfo (Inl e) s) = timeouts s \<and>
   alert (mount tok g rp (Inl e)) = alert_hidden \<and>
   timeouts (mount tok g rp (Inl e)) = [] \<and>
   customerServiceInfo (run es (mount tok g rp (Inl e))) = \<lparr>cs_phone = [], cs_message = []\<rparr>"
  by (simp add: run_customerServiceInfo mount_def restore_effect_def fetchUserProfile_def
      fetchCustomerServiceInfo_def geolocation_effect_def app_init_def
      Let_def split: option.splits sum.splits geo.splits)

text \<open>
  C7. With a position known, a submission sends one request whose pickup coordinates are
  the current position, whose pickup address is the sentinel (a non-empty string) when
  the form's pickup address is empty and the form's own pickup address otherwise, whose
  destination and luggage flag are the form's, and whose passenger count is \<open>parseInt\<close>
  of the form's value: the integer itself for the initial 1 and for each option of the
  select. A failed submission leaves the form as it was, so the sentinel is never written
  back into it.
\<close>

theorem handleRideRequest_payload:
  assumes "currentLocation s = Some loc"
  shows "sent (handleRideRequest r s) =
           sent s @
           [PostRidesRequest
              \<lparr>p_pickup_latitude = lat loc,
               p_pickup_longitude = lng loc,
               p_pickup_address =
                 (if pickup_address (rideRequest s) = [] then current_location_sentinel
                  else pickup_address (rideRequest s)),
               p_destination_address = destination_address (rideRequest s),
               p_passenger_count = parseInt (passenger_count (rideRequest s)),
               p_has_luggage = has_luggage (rideRequest s)\<rparr>] \<and>
         current_location_sentinel \<noteq> [] \<and>
         rideRequest (handleRideRequest (Inl e) s) = rideRequest s \<and>
         parseInt (JNum 1) = Some 1 \<and>
         parseInt (JStr ''1'') = Some 1 \<and> parseInt (JStr ''2'') = Some 2 \<and>
         parseInt (JStr ''3'') = Some 3 \<and> parseInt (JStr ''4'') = Some 4"
proof -
  have a: "sent (handleRideRequest r s) =
             sent s @ [PostRidesRequest (ride_body loc (rideRequest s))]"
    using assms by (rule handleRideRequest_sent)
  have b: "current_location_sentinel \<noteq> []"
    by (simp add: current_location_sentinel_def)
  have c: "rideRequest (handleRideRequest (Inl e) s) = rideRequest s"
    by (simp add: handleRideRequest_def showAlert_def Let_def split: option.splits)
  from a b c parseInt_options show ?thesis
    by (simp add: ride_body_def del: parseInt.simps(2))
qed

text \<open>
  An empty pickup address, three passengers.
\<close>

theorem handleRideRequest_payload_witness:
  "currentLocation passenger_example = Some \<lparr>lat = 21.5, lng = 39.25\<rparr> \<and>
   sent (handleRideRequest (Inr ())
           (passenger_example
              \<lparr>rideRequest := \<lparr>pickup_address = [], destination_address = ''Airport'',
                                passenger_count = JStr ''3'', has_luggage = True\<rparr>\<rparr>)) =
     [PostRidesRequest
        \<lparr>p_pickup_latitude = 21.5, p_pickup_longitude = 39.25,
         p_pickup_address = current_location_sentinel, p_destination_address = ''Airport'',
         p_passenger_count = Some 3, p_has_luggage = True\<rparr>]"
proof -
  let ?s = "passenger_example
              \<lparr>rideRequest := \<lparr>pickup_address = [], destination_address = ''Airport'',
                                passenger_count = JStr ''3'', has_luggage = True\<rparr>\<rparr>"
  have h: "currentLocation ?s = Some \<lparr>lat = 21.5, lng = 39.25\<rparr>"
    and h': "currentLocation passenger_example = Some \<lparr>lat = 21.5, lng = 39.25\<rparr>"
    and z: "sent ?s = []"
    by (simp_all add: passenger_example_def app_init_def)
  from handleRideRequest_payload [OF h, of "Inr ()" NetworkError] h' z
  show ?thesis by simp
qed

text \<open>
  C6. A submission of the ride form with an empty destination is rejected before anything
  is sent: the state, and with it the list of requests, stays as it was. A submission
  with a destination and a position does send the form's request. Through every run
  from startup the passenger count held in the form reads as an integer from 1 to 4 (the
  initial 1, the reset, or an option of the select), so every ride request that is ever
  sent carries a non-empty destination and a passenger count from 1 to 4.
\<close>

theorem rideRequest_submission_rejects_invalid:
  "(destination_address (rideRequest s) = [] \<longrightarrow> rideForm_submit r s = s) \<and>
   (ride_form_rendered s \<and> destination_address (rideRequest s) \<noteq> [] \<and>
    currentLocation s = Some loc \<longrightarrow>
      sent (rideForm_submit r s) = sent s @ [PostRidesRequest (ride_body loc (rideRequest s))]) \<and>
   (\<exists>n. parseInt (passenger_count (rideRequest (run es (mount tok g rp rc)))) = Some n \<and>
        1 \<le> n \<and> n \<le> 4) \<and>
   (\<forall>p. PostRidesRequest p \<in> set (sent (run es (mount tok g rp rc))) \<longrightarrow>
        p_destination_address p \<noteq> [] \<and>
        (\<exists>n. p_passenger_count p = Some n \<and> 1 \<le> n \<and> n \<le> 4))"
proof -
  have a: "destination_address (rideRequest s) = [] \<longrightarrow> rideForm_submit r s = s"
    by (simp add: rideForm_submit_def destination_rejected_def)
  have b: "ride_form_rendered s \<and> destination_address (rideRequest s) \<noteq> [] \<and>
           currentLocation s = Some loc \<longrightarrow>
           sent (rideForm_submit r s) = sent s @ [PostRidesRequest (ride_body loc (rideRequest s))]"
    by (simp add: rideForm_submit_def destination_rejected_def handleRideRequest_sent)
  have v: "ride_form_valid (run es (mount tok g rp rc))"
    by (rule run_valid [OF mount_valid])
  from v have c: "\<exists>n. parseInt (passenger_count (rideRequest (run es (mount tok g rp rc)))) = Some n \<and>
        1 \<le> n \<and> n \<le> 4"
    by (auto simp: ride_form_valid_def count_in_range_def split: option.splits)
  have d: "\<forall>p. PostRidesRequest p \<in> set (sent (run es (mount tok g rp rc))) \<longrightarrow>
        p_destination_address p \<noteq> [] \<and>
        (\<exists>n. p_passenger_count p = Some n \<and> 1 \<le> n \<and> n \<le> 4)"
  proof (intro allI impI)
    fix p
    assume "PostRidesRequest p \<in> set (sent (run es (mount tok g rp rc)))"
    with v have "valid_ride_request (PostRidesRequest p)"
      unfolding ride_form_valid_def list_all_iff by blast
    then show "p_destination_address p \<noteq> [] \<and>
        (\<exists>n. p_passenger_count p = Some n \<and> 1 \<le> n \<and> n \<le> 4)"
      unfolding valid_ride_request_iff .
  qed
  from a b c d show ?thesis by blast
qed

text \<open>
  A passenger after startup: a value that is no option of the select is not stored and a
  submission without destination sends nothing; with a destination and three passengers
  the request goes out.
\<close>

theorem rideRequest_submission_rejects_invalid_witness:
  "sent (run [SelectPassengerCount ''7'', RideSubmit (Inr ())]
           (mount (Some ''tok'') (GeoSuccess 21 39) (Inr passenger_profile) (Inl NetworkError))) =
     [GetMe, GetCustomerServiceInfo] \<and>
   sent (run [SetDestinationAddress ''Airport'', SelectPassengerCount ''7'',
              SelectPassengerCount ''3'', RideSubmit (Inr ())]
           (mount (Some ''tok'') (GeoSuccess 21 39) (Inr passenger_profile) (Inl NetworkError))) =
     [GetMe, GetCustomerServiceInfo,
      PostRidesRequest
        \<lparr>p_pickup_latitude = 21, p_pickup_longitude = 39,
         p_pickup_address = current_location_sentinel, p_destination_address = ''Airport'',
         p_passenger_count = Some 3, p_has_luggage = False\<rparr>]"
proof -
  define m where
    "m = mount (Some ''tok'') (GeoSuccess 21 39) (Inr passenger_profile) (Inl NetworkError)"
  define f where
    "f = \<lparr>pickup_address = [], destination_address = ''Airport'',
          passenger_count = JStr ''3'', has_luggage = False\<rparr>"
  have me: "m = (app_init None)
       \<lparr>user := Some passenger_profile,
        currentLocation := Some \<lparr>lat = 21, lng = 39\<rparr>,
        token := Some ''tok'',
        authorization := Some ''Bearer tok'',
        sent := [GetMe, GetCustomerServiceInfo],
        console := [''Error fetching customer service info:''],
        geo_requests := 1\<rparr>"
    unfolding m_def by (rule passenger_mount)
  have rendered: "ride_form_rendered m"
    and h1: "destination_address (rideRequest m) = []"
    and sm: "sent m = [GetMe, GetCustomerServiceInfo]"
    and lm: "currentLocation m = Some \<lparr>lat = 21, lng = 39\<rparr>"
    and rm: "rideRequest m = rideRequest_init"
    by (simp_all add: me app_init_def rideRequest_init_def ride_form_rendered_def
        passenger_profile_def)
  have m7: "step (SelectPassengerCount ''7'') m = m"
    by (simp add: passenger_count_select_def passenger_count_options_def)
  have t: "step (SelectPassengerCount ''3'')
             (step (SelectPassengerCount ''7'') (step (SetDestinationAddress ''Airport'') m)) =
           m\<lparr>rideRequest := f\<rparr>"
    using rendered
    by (simp add: rm f_def rideRequest_init_def ride_form_rendered_def
        destination_address_onChange_def passenger_count_select_def
        passenger_count_onChange_def passenger_count_options_def)
  have h2: "ride_form_rendered (m\<lparr>rideRequest := f\<rparr>) \<and>
            destination_address (rideRequest (m\<lparr>rideRequest := f\<rparr>)) \<noteq> [] \<and>
            currentLocation (m\<lparr>rideRequest := f\<rparr>) = Some \<lparr>lat = 21, lng = 39\<rparr>"
    using rendered lm by (simp add: ride_form_rendered_def f_def)
  from rideRequest_submission_rejects_invalid [of m "Inr ()"] h1
  have c1: "rideForm_submit (Inr ()) m = m" by blast
  from rideRequest_submission_rejects_invalid
         [of "m\<lparr>rideRequest := f\<rparr>" "Inr ()" "\<lparr>lat = 21, lng = 39\<rparr>"] h2
  have c2: "sent (rideForm_submit (Inr ()) (m\<lparr>rideRequest := f\<rparr>)) =
              sent (m\<lparr>rideRequest := f\<rparr>) @
              [PostRidesRequest (ride_body \<lparr>lat = 21, lng = 39\<rparr> (rideRequest (m\<lparr>rideRequest := f\<rparr>)))]"
    by blast
  have b: "ride_body \<lparr>lat = 21, lng = 39\<rparr> f =
        \<lparr>p_pickup_latitude = 21, p_pickup_longitude = 39,
         p_pickup_address = current_location_sentinel, p_destination_address = ''Airport'',
         p_passenger_count = Some 3, p_has_luggage = False\<rparr>"
    using parseInt_options by (simp add: f_def ride_body_def del: parseInt.simps(2))
  have r1: "run [SelectPassengerCount ''7'', RideSubmit (Inr ())] m = rideForm_submit (Inr ()) m"
    using m7 by (simp del: step.simps(7))
  have r2: "run [SetDestinationAddress ''Airport'', SelectPassengerCount ''7'',
              SelectPassengerCount ''3'', RideSubmit (Inr ())] m =
            rideForm_submit (Inr ()) (m\<lparr>rideRequest := f\<rparr>)"
    using t by (simp del: step.simps(5) step.simps(6) step.simps(7))
  have "sent (run [SelectPassengerCount ''7'', RideSubmit (Inr ())] m) =
          [GetMe, GetCustomerServiceInfo]"
    by (simp only: r1 c1 sm)
  moreover have "sent (run [SetDestinationAddress ''Airport'', SelectPassengerCount ''7'',
              SelectPassengerCount ''3'', RideSubmit (Inr ())] m) =
     [GetMe, GetCustomerServiceInfo,
      PostRidesRequest
        \<lparr>p_pickup_latitude = 21, p_pickup_longitude = 39,
         p_pickup_address = current_location_sentinel, p_destination_address = ''Airport'',
         p_passenger_count = Some 3, p_has_luggage = False\<rparr>]"
    using sm by (simp add: r2 c2 b del: run.simps)
  ultimately show ?thesis
    unfolding m_def by (rule conjI)
qed

end
